theory Spec2Isabelle
  imports Complex_Main
begin

section \<open>Data model\<close>

text \<open>
  The repository is a React front end: an admin dashboard (\<^verbatim>\<open>AdminDashboard\<close>), a customer
  order-status page (\<^verbatim>\<open>OrderStatusPage\<close>), a cart (\<^verbatim>\<open>CartContext\<close>, \<^verbatim>\<open>CartPage\<close>) and the
  order page that fills it. JavaScript objects become records, the six status strings
  (the keys of \<^verbatim>\<open>STATUS_CONFIG\<close>) a datatype, arrays lists. JavaScript numbers that
  carry money are exact rationals here (the rounding of IEEE doubles is outside the
  model); quantities and counters are integers.
\<close>

datatype status = Pending | Accepted | Preparing | Ready | Completed | Cancelled

record modifier =
  modifierName :: string
  label :: string
  mod_price :: "rat option"

record order_line =
  line_menuItemId :: string
  line_name :: string
  line_price :: rat
  line_quantity :: int
  line_notes :: "string option"
  line_modifiers :: "modifier list"

record order =
  order_id :: string
  tableNumber :: int
  items :: "order_line list"
  customerName :: "string option"
  order_notes :: "string option"
  total :: rat
  status :: status
  createdAt :: string
  updatedAt :: string

record settings =
  currency :: string
  taxRate :: rat
  serviceFee :: rat

section \<open>Admin dashboard: status buttons\<close>

text \<open>
  \<^verbatim>\<open>const NEXT_STATUS = { pending: 'accepted', accepted: 'preparing',
  preparing: 'ready', ready: 'completed' }\<close>; a key that is absent reads as
  \<^verbatim>\<open>undefined\<close>, here \<open>None\<close>.
\<close>

fun NEXT_STATUS :: "status \<Rightarrow> status option" where
  "NEXT_STATUS Pending = Some Accepted"
| "NEXT_STATUS Accepted = Some Preparing"
| "NEXT_STATUS Preparing = Some Ready"
| "NEXT_STATUS Ready = Some Completed"
| "NEXT_STATUS Completed = None"
| "NEXT_STATUS Cancelled = None"

text \<open>
  The action area of an order card: inside the guard
  \<^verbatim>\<open>order.status !== 'completed' && order.status !== 'cancelled'\<close> an advance button
  when \<^verbatim>\<open>nextStatus\<close> is defined, then a cancel button. \<open>card_buttons\<close> lists the
  \<^verbatim>\<open>newStatus\<close> argument each rendered button passes to \<^verbatim>\<open>updateOrderStatus\<close>, in
  render order.
\<close>

definition card_buttons :: "status \<Rightarrow> status list" where
  "card_buttons s =
     (if s \<noteq> Completed \<and> s \<noteq> Cancelled
      then (case NEXT_STATUS s of Some nextStatus \<Rightarrow> [nextStatus] | None \<Rightarrow> []) @ [Cancelled]
      else [])"

text \<open>
  \<^verbatim>\<open>updateOrderStatus(orderId, newStatus)\<close> sends
  \<^verbatim>\<open>PATCH /admin/orders/{orderId}/status\<close> with body \<^verbatim>\<open>{status: newStatus}\<close>; the two
  buttons are its only call sites.
\<close>

datatype request = UpdateOrderStatus string status

definition card_actions :: "order \<Rightarrow> request list" where
  "card_actions order = map (UpdateOrderStatus (order_id order)) (card_buttons (status order))"

section \<open>Server-sent events: connection handling shared by both pages\<close>

text \<open>
  Both components hold \<^verbatim>\<open>eventSourceRef = useRef(null)\<close> and define the same
  \<^verbatim>\<open>connectSSE\<close>. Every \<^verbatim>\<open>EventSource\<close> the component has constructed is an entry of
  \<open>sources\<close> (oldest first, its index is its identity); \<open>eventSourceRef\<close> is the index
  held in \<^verbatim>\<open>eventSourceRef.current\<close>; \<open>timers\<close> are the delays in milliseconds of the
  pending \<^verbatim>\<open>setTimeout(connectSSE, delay)\<close> calls, in the order they were set.
\<close>

datatype readyState = OPEN | CLOSED

record sse =
  sources :: "readyState list"
  eventSourceRef :: "nat option"
  timers :: "nat list"

definition sse_initial :: sse where
  "sse_initial = \<lparr>sources = [], eventSourceRef = None, timers = []\<rparr>"

text \<open>\<^verbatim>\<open>eventSourceRef.current = new EventSource(url)\<close> (the listeners are the steps below).\<close>

definition connectSSE :: "sse \<Rightarrow> sse" where
  "connectSSE c = c\<lparr>sources := sources c @ [OPEN], eventSourceRef := Some (length (sources c))\<rparr>"

text \<open>\<^verbatim>\<open>eventSourceRef.current?.close()\<close>: closes whatever the ref holds now.\<close>

definition close_current :: "sse \<Rightarrow> sse" where
  "close_current c =
     (case eventSourceRef c of
        None \<Rightarrow> c
      | Some k \<Rightarrow> c\<lparr>sources := (sources c)[k := CLOSED]\<rparr>)"

text \<open>
  \<^verbatim>\<open>onerror = () => { eventSourceRef.current?.close(); setTimeout(connectSSE, 5000); }\<close>.
  The handler does not look at the event or its target.
\<close>

definition onerror :: "sse \<Rightarrow> sse" where
  "onerror c = (let c' = close_current c in c'\<lparr>timers := timers c' @ [5000]\<rparr>)"

text \<open>A pending timer fires: it leaves \<open>timers\<close> and runs \<^verbatim>\<open>connectSSE\<close>.\<close>

definition timer_fires :: "sse \<Rightarrow> sse" where
  "timer_fires c =
     (case timers c of
        [] \<Rightarrow> c
      | t # ts \<Rightarrow> connectSSE (c\<lparr>timers := ts\<rparr>))"

text \<open>A closed \<^verbatim>\<open>EventSource\<close> dispatches no events; only an open one can.\<close>

definition is_open :: "nat \<Rightarrow> sse \<Rightarrow> bool" where
  "is_open k c = (k < length (sources c) \<and> sources c ! k = OPEN)"

text \<open>
  At most one reconnect is pending, and a connection that is open is the one held in
  \<^verbatim>\<open>eventSourceRef.current\<close>, with no reconnect pending.
\<close>

definition single_connection :: "sse \<Rightarrow> bool" where
  "single_connection c =
     (length (timers c) \<le> 1 \<and>
      (\<forall>k. is_open k c \<longrightarrow> eventSourceRef c = Some k \<and> timers c = []))"

section \<open>Admin dashboard: state and events\<close>

datatype tab = TabAll | TabActive | TabStatus status

record dashboard =
  orders :: "order list"
  loading :: bool
  activeTab :: tab
  soundEnabled :: bool
  dash_settings :: "settings option"
  dash_sse :: sse
  fetches :: nat

text \<open>
  The \<^verbatim>\<open>new_order\<close> listener: \<^verbatim>\<open>setOrders(prev => [newOrder, ...prev])\<close> (the sound and
  the toast change no state). The \<^verbatim>\<open>order_updated\<close> listener:
  \<^verbatim>\<open>setOrders(prev => prev.map(o => o.id === updatedOrder.id ? updatedOrder : o))\<close>.
\<close>

definition new_order_handler :: "order \<Rightarrow> order list \<Rightarrow> order list" where
  "new_order_handler newOrder prev = newOrder # prev"

definition order_updated_handler :: "order \<Rightarrow> order list \<Rightarrow> order list" where
  "order_updated_handler updatedOrder prev =
     map (\<lambda>ord. if order_id ord = order_id updatedOrder then updatedOrder else ord) prev"

text \<open>
  \<^verbatim>\<open>fetchOrders\<close> starts \<^verbatim>\<open>GET /admin/orders\<close> and \<^verbatim>\<open>GET /settings\<close>; \<open>fetches\<close> counts the
  calls. The response is a later event (\<open>FetchResolved\<close>, \<open>FetchRejected\<close>).
\<close>

definition fetchOrders :: "dashboard \<Rightarrow> dashboard" where
  "fetchOrders d = d\<lparr>fetches := Suc (fetches d)\<rparr>"

text \<open>
  The state after the first render and its two effects: \<^verbatim>\<open>useEffect(() => { fetchOrders(); }, [])\<close>
  and the SSE effect, which calls \<^verbatim>\<open>connectSSE()\<close>.
\<close>

definition dashboard_mount :: dashboard where
  "dashboard_mount =
     \<lparr>orders = [], loading = True, activeTab = TabAll, soundEnabled = True,
      dash_settings = None, dash_sse = connectSSE sse_initial, fetches = 1\<rparr>"

text \<open>
  What can happen to the mounted dashboard. \<open>NewOrder k o\<close>, \<open>OrderUpdated k o\<close> and
  \<open>StreamError k\<close> are events dispatched by the \<^verbatim>\<open>EventSource\<close> with index \<open>k\<close>. The
  refresh button, the sound button and the tabs are rendered only once \<open>loading\<close> is
  false. The sound button flips \<^verbatim>\<open>soundEnabled\<close>, a dependency of the SSE effect, so
  React runs the effect's cleanup (\<^verbatim>\<open>eventSourceRef.current?.close()\<close>) and then the
  effect again (\<^verbatim>\<open>connectSSE()\<close>); no code clears a pending timer.
\<close>

datatype dashboard_event =
    FetchResolved "order list" settings
  | FetchRejected
  | ClickRefresh
  | ClickSoundToggle
  | SelectTab tab
  | NewOrder nat order
  | OrderUpdated nat order
  | StreamError nat
  | TimerFired

fun dashboard_step :: "dashboard_event \<Rightarrow> dashboard \<Rightarrow> dashboard" where
  "dashboard_step (FetchResolved ordersData settingsData) d =
     d\<lparr>orders := ordersData, dash_settings := Some settingsData, loading := False\<rparr>"
| "dashboard_step FetchRejected d = d\<lparr>loading := False\<rparr>"
| "dashboard_step ClickRefresh d = (if loading d then d else fetchOrders d)"
| "dashboard_step ClickSoundToggle d =
     (if loading d then d
      else d\<lparr>soundEnabled := \<not> soundEnabled d,
             dash_sse := connectSSE (close_current (dash_sse d))\<rparr>)"
| "dashboard_step (SelectTab t) d = (if loading d then d else d\<lparr>activeTab := t\<rparr>)"
| "dashboard_step (NewOrder k newOrder) d =
     (if is_open k (dash_sse d) then d\<lparr>orders := new_order_handler newOrder (orders d)\<rparr> else d)"
| "dashboard_step (OrderUpdated k updatedOrder) d =
     (if is_open k (dash_sse d)
      then d\<lparr>orders := order_updated_handler updatedOrder (orders d)\<rparr> else d)"
| "dashboard_step (StreamError k) d =
     (if is_open k (dash_sse d) then d\<lparr>dash_sse := onerror (dash_sse d)\<rparr> else d)"
| "dashboard_step TimerFired d = d\<lparr>dash_sse := timer_fires (dash_sse d)\<rparr>"

fun dashboard_run :: "dashboard_event list \<Rightarrow> dashboard \<Rightarrow> dashboard" where
  "dashboard_run [] d = d"
| "dashboard_run (e # es) d = dashboard_run es (dashboard_step e d)"

text \<open>
  The render: \<^verbatim>\<open>filteredOrders\<close> by the active tab, one card per order, and the requests
  the rendered buttons can send. While \<open>loading\<close> only skeletons are rendered.
\<close>

definition filteredOrders :: "dashboard \<Rightarrow> order list" where
  "filteredOrders d =
     filter (\<lambda>order.
        (case activeTab d of
           TabAll \<Rightarrow> True
         | TabActive \<Rightarrow> \<not> (status order = Completed \<or> status order = Cancelled)
         | TabStatus s \<Rightarrow> status order = s)) (orders d)"

definition dashboard_actions :: "dashboard \<Rightarrow> request list" where
  "dashboard_actions d = (if loading d then [] else concat (map card_actions (filteredOrders d)))"

section \<open>Customer order-status page: state and events\<close>

text \<open>
  \<^verbatim>\<open>OrderStatusPage\<close> keeps \<^verbatim>\<open>order\<close> (initially \<^verbatim>\<open>null\<close>), \<^verbatim>\<open>loading\<close> and \<^verbatim>\<open>settings\<close>. The
  \<^verbatim>\<open>status_update\<close> listener parses \<^verbatim>\<open>{order, status}\<close> and runs \<^verbatim>\<open>setOrder(data.order)\<close>;
  the toast changes no state.
\<close>

record status_page =
  orderId :: string
  page_order :: "order option"
  page_loading :: bool
  page_settings :: "settings option"
  page_sse :: sse
  page_fetches :: nat

definition status_update_handler :: "order \<times> status \<Rightarrow> order option \<Rightarrow> order option" where
  "status_update_handler data prev = Some (fst data)"

text \<open>
  The state after the first render and its two effects, for the route parameter
  \<open>oid\<close>: \<^verbatim>\<open>fetchData()\<close> is called once, and the SSE effect returns early when
  \<^verbatim>\<open>orderId\<close> is falsy (the empty string here), else calls \<^verbatim>\<open>connectSSE()\<close>. The model
  follows one page for one \<open>oid\<close>.
\<close>

definition page_mount :: "string \<Rightarrow> status_page" where
  "page_mount oid =
     \<lparr>orderId = oid, page_order = None, page_loading = True, page_settings = None,
      page_sse = (if oid = [] then sse_initial else connectSSE sse_initial),
      page_fetches = 1\<rparr>"

datatype page_event =
    PageFetchResolved order settings
  | PageFetchRejected
  | StatusUpdate nat "order \<times> status"
  | PageStreamError nat
  | PageTimerFired

fun page_step :: "page_event \<Rightarrow> status_page \<Rightarrow> status_page" where
  "page_step (PageFetchResolved orderData settingsData) p =
     p\<lparr>page_order := Some orderData, page_settings := Some settingsData, page_loading := False\<rparr>"
| "page_step PageFetchRejected p = p\<lparr>page_loading := False\<rparr>"
| "page_step (StatusUpdate k data) p =
     (if is_open k (page_sse p)
      then p\<lparr>page_order := status_update_handler data (page_order p)\<rparr> else p)"
| "page_step (PageStreamError k) p =
     (if is_open k (page_sse p) then p\<lparr>page_sse := onerror (page_sse p)\<rparr> else p)"
| "page_step PageTimerFired p = p\<lparr>page_sse := timer_fires (page_sse p)\<rparr>"

fun page_run :: "page_event list \<Rightarrow> status_page \<Rightarrow> status_page" where
  "page_run [] p = p"
| "page_run (e # es) p = page_run es (page_step e p)"

section \<open>Cart\<close>

text \<open>
  A menu item as \<^verbatim>\<open>addToCart\<close> reads it (\<^verbatim>\<open>id\<close>, \<^verbatim>\<open>name\<close>, \<^verbatim>\<open>price\<close>, \<^verbatim>\<open>imageUrl\<close>) and a
  cart line as it builds it.
\<close>

record menu_item =
  item_id :: string
  item_name :: string
  item_price :: rat
  item_imageUrl :: "string option"

record cart_line =
  menuItemId :: string
  name :: string
  price :: rat
  basePrice :: rat
  quantity :: int
  cart_notes :: string
  modifiers :: "modifier list"
  imageUrl :: "string option"

text \<open>
  \<^verbatim>\<open>JSON.stringify\<close> of a modifier list. A selected modifier is
  \<^verbatim>\<open>{ modifierName: modifier.name, ...option }\<close> with \<^verbatim>\<open>label\<close> and \<^verbatim>\<open>price\<close> from the
  option; a property that is \<^verbatim>\<open>undefined\<close> is left out of the text. The serialised text
  is kept as the tree it spells.
\<close>

datatype json = JNumber rat | JString string | JArray "json list" | JObject "(string \<times> json) list"

definition modifier_json :: "modifier \<Rightarrow> json" where
  "modifier_json m =
     JObject ([(''modifierName'', JString (modifierName m)), (''label'', JString (label m))]
              @ (case mod_price m of None \<Rightarrow> [] | Some p \<Rightarrow> [(''price'', JNumber p)]))"

definition JSON_stringify :: "modifier list \<Rightarrow> json" where
  "JSON_stringify ms = JArray (map modifier_json ms)"

text \<open>\<^verbatim>\<open>Array.prototype.findIndex\<close>; \<open>None\<close> stands for the result \<^verbatim>\<open>-1\<close>.\<close>

fun findIndex :: "('a \<Rightarrow> bool) \<Rightarrow> 'a list \<Rightarrow> nat option" where
  "findIndex P [] = None"
| "findIndex P (x # xs) = (if P x then Some 0 else map_option Suc (findIndex P xs))"

text \<open>The predicate \<^verbatim>\<open>addToCart\<close> passes to \<^verbatim>\<open>findIndex\<close>.\<close>

definition same_line :: "menu_item \<Rightarrow> string \<Rightarrow> modifier list \<Rightarrow> cart_line \<Rightarrow> bool" where
  "same_line item nts selectedModifiers cartItem =
     (menuItemId cartItem = item_id item \<and> cart_notes cartItem = nts \<and>
      JSON_stringify (modifiers cartItem) = JSON_stringify selectedModifiers)"

text \<open>
  \<^verbatim>\<open>selectedModifiers.reduce((sum, mod) => sum + (mod.price || 0), 0)\<close>: a modifier with no
  price (or price \<^verbatim>\<open>0\<close>) adds \<^verbatim>\<open>0\<close>.
\<close>

definition modifierPrice :: "modifier list \<Rightarrow> rat" where
  "modifierPrice selectedModifiers =
     foldl (\<lambda>sum m. sum + (case mod_price m of None \<Rightarrow> 0 | Some p \<Rightarrow> p)) 0 selectedModifiers"

text \<open>The updater \<^verbatim>\<open>addToCart\<close> passes to \<^verbatim>\<open>setCart\<close>, as a function of the previous cart.\<close>

definition addToCart ::
  "menu_item \<Rightarrow> int \<Rightarrow> string \<Rightarrow> modifier list \<Rightarrow> cart_line list \<Rightarrow> cart_line list" where
  "addToCart item qty nts selectedModifiers prev =
     (case findIndex (same_line item nts selectedModifiers) prev of
        Some existingIndex \<Rightarrow>
          prev[existingIndex :=
                 (prev ! existingIndex)\<lparr>quantity := quantity (prev ! existingIndex) + qty\<rparr>]
      | None \<Rightarrow>
          prev @ [\<lparr>menuItemId = item_id item, name = item_name item,
                   price = item_price item + modifierPrice selectedModifiers,
                   basePrice = item_price item, quantity = qty, cart_notes = nts,
                   modifiers = selectedModifiers, imageUrl = item_imageUrl item\<rparr>])"

text \<open>\<^verbatim>\<open>removeFromCart\<close>: \<^verbatim>\<open>prev.filter((_, i) => i !== index)\<close>.\<close>

definition removeFromCart :: "nat \<Rightarrow> cart_line list \<Rightarrow> cart_line list" where
  "removeFromCart index prev = map snd (filter (\<lambda>(i, _). i \<noteq> index) (enumerate 0 prev))"

text \<open>
  \<^verbatim>\<open>updateQuantity\<close>: a quantity \<^verbatim>\<open><= 0\<close> removes the line; otherwise
  \<^verbatim>\<open>updated[index].quantity = quantity\<close>, which throws a \<^verbatim>\<open>TypeError\<close> when \<^verbatim>\<open>updated[index]\<close>
  is \<^verbatim>\<open>undefined\<close> (index out of range).
\<close>

datatype js_error = TypeError

definition updateQuantity :: "nat \<Rightarrow> int \<Rightarrow> cart_line list \<Rightarrow> js_error + cart_line list" where
  "updateQuantity index qty prev =
     (if qty \<le> 0 then Inr (removeFromCart index prev)
      else if index < length prev then Inr (prev[index := (prev ! index)\<lparr>quantity := qty\<rparr>])
      else Inl TypeError)"

definition clearCart :: "cart_line list \<Rightarrow> cart_line list" where
  "clearCart prev = []"

text \<open>\<^verbatim>\<open>getTotal\<close>: \<^verbatim>\<open>cart.reduce((sum, item) => sum + (item.price * item.quantity), 0)\<close>.\<close>

definition getTotal :: "cart_line list \<Rightarrow> rat" where
  "getTotal cart = foldl (\<lambda>sum item. sum + price item * of_int (quantity item)) 0 cart"

text \<open>
  The operations \<^verbatim>\<open>CartProvider\<close> exports, and a run of them from a cart. An operation
  that throws stops the run with the cart as it was.
\<close>

datatype cart_op =
    AddToCart menu_item int string "modifier list"
  | UpdateQuantity nat int
  | RemoveFromCart nat
  | ClearCart

fun cart_step :: "cart_op \<Rightarrow> cart_line list \<Rightarrow> js_error + cart_line list" where
  "cart_step (AddToCart item qty nts selectedModifiers) cart =
     Inr (addToCart item qty nts selectedModifiers cart)"
| "cart_step (UpdateQuantity index qty) cart = updateQuantity index qty cart"
| "cart_step (RemoveFromCart index) cart = Inr (removeFromCart index cart)"
| "cart_step ClearCart cart = Inr (clearCart cart)"

fun cart_run :: "cart_op list \<Rightarrow> cart_line list \<Rightarrow> cart_line list" where
  "cart_run [] cart = cart"
| "cart_run (c # cs) cart =
     (case cart_step c cart of Inl e \<Rightarrow> cart | Inr cart' \<Rightarrow> cart_run cs cart')"

text \<open>The quantity argument of an \<^verbatim>\<open>addToCart\<close> call is at least 1 (the default is 1).\<close>

fun add_quantity_positive :: "cart_op \<Rightarrow> bool" where
  "add_quantity_positive (AddToCart item qty nts selectedModifiers) = (1 \<le> qty)"
| "add_quantity_positive c = True"

text \<open>Every line of the cart has a quantity of at least 1.\<close>

definition quantities_positive :: "cart_line list \<Rightarrow> bool" where
  "quantities_positive cart = list_all (\<lambda>l. 1 \<le> quantity l) cart"

subsection \<open>Cart page totals\<close>

text \<open>
  \<^verbatim>\<open>const subtotal = getTotal();\<close>
  \<^verbatim>\<open>const taxRate = settings?.taxRate || 0.08;\<close>
  \<^verbatim>\<open>const tax = subtotal * taxRate;\<close>
  \<^verbatim>\<open>const serviceFee = settings?.serviceFee || 0;\<close>
  \<^verbatim>\<open>const total = subtotal + tax + serviceFee;\<close>
  \<^verbatim>\<open>settings\<close> is \<^verbatim>\<open>null\<close> until \<^verbatim>\<open>GET /settings\<close> has answered. \<^verbatim>\<open>x || d\<close> on a number is
  \<open>d\<close> when \<open>x\<close> is \<^verbatim>\<open>0\<close> (or missing) and \<open>x\<close> otherwise.
\<close>

definition js_or :: "rat option \<Rightarrow> rat \<Rightarrow> rat" where
  "js_or x d = (case x of None \<Rightarrow> d | Some v \<Rightarrow> if v = 0 then d else v)"

definition CartPage_subtotal :: "cart_line list \<Rightarrow> rat" where
  "CartPage_subtotal cart = getTotal cart"

definition CartPage_taxRate :: "settings option \<Rightarrow> rat" where
  "CartPage_taxRate st = js_or (map_option taxRate st) (8 / 100)"

definition CartPage_tax :: "settings option \<Rightarrow> cart_line list \<Rightarrow> rat" where
  "CartPage_tax st cart = CartPage_subtotal cart * CartPage_taxRate st"

definition CartPage_serviceFee :: "settings option \<Rightarrow> rat" where
  "CartPage_serviceFee st = js_or (map_option serviceFee st) 0"

definition CartPage_total :: "settings option \<Rightarrow> cart_line list \<Rightarrow> rat" where
  "CartPage_total st cart = CartPage_subtotal cart + CartPage_tax st cart + CartPage_serviceFee st"

section \<open>Order service\<close>

text \<open>
  Modelled from the spec: the Transition Validator (section 4.1) runs on the server,
  which is not among the sources. \<^verbatim>\<open>completed\<close> and \<^verbatim>\<open>cancelled\<close> are terminal (no
  outgoing edges); the forward edges are
  \<^verbatim>\<open>pending -> accepted -> preparing -> ready -> completed\<close>; every non-terminal state has
  an edge to \<^verbatim>\<open>cancelled\<close>; no other edges exist.
  \<^verbatim>\<open>validate(current, requested) -> accepted | rejected(InvalidTransition)\<close>.
\<close>

datatype service_error = ValidationError | NotFound | InvalidTransition | Conflict

definition terminal :: "status \<Rightarrow> bool" where
  "terminal s = (s = Completed \<or> s = Cancelled)"

definition forward_chain :: "status list" where
  "forward_chain = [Pending, Accepted, Preparing, Ready, Completed]"

definition forward_edge :: "status \<Rightarrow> status \<Rightarrow> bool" where
  "forward_edge a b = ((a, b) \<in> set (zip forward_chain (tl forward_chain)))"

definition validate :: "status \<Rightarrow> status \<Rightarrow> service_error + unit" where
  "validate current requested =
     (if forward_edge current requested \<or> (\<not> terminal current \<and> requested = Cancelled)
      then Inr () else Inl InvalidTransition)"

text \<open>
  Modelled from the spec: the Order Service's \<^verbatim>\<open>transition(orderId, requestedStatus)\<close>
  (section 4.2) and the Order Store's conditional write run on the server, which is not
  among the sources. \<^verbatim>\<open>transition\<close> loads the current order and calls the validator; if
  rejected it fails with \<^verbatim>\<open>InvalidTransition\<close> and performs no write; if accepted it
  writes on the condition that the status is still the one read; if the condition fails
  it retries the read-validate-write sequence once, and if it fails again it fails with
  \<^verbatim>\<open>Conflict\<close>. An unknown order is \<^verbatim>\<open>NotFound\<close>. What other writers do to the store
  between the read and the write of an attempt is the function \<open>env\<close> of that attempt.
\<close>

type_synonym order_store = "string \<Rightarrow> order option"

definition conditional_write ::
  "order_store \<Rightarrow> string \<Rightarrow> status \<Rightarrow> order \<Rightarrow> order_store option" where
  "conditional_write store oid expected new =
     (case store oid of
        None \<Rightarrow> None
      | Some cur \<Rightarrow> if status cur = expected then Some (store(oid \<mapsto> new)) else None)"

datatype attempt_result = Failed service_error | Written order | PreconditionFailed

definition attempt ::
  "(order_store \<Rightarrow> order_store) \<Rightarrow> order_store \<Rightarrow> string \<Rightarrow> status \<Rightarrow> string
     \<Rightarrow> order_store \<times> attempt_result" where
  "attempt env store oid requested now =
     (case store oid of
        None \<Rightarrow> (store, Failed NotFound)
      | Some cur \<Rightarrow>
          (case validate (status cur) requested of
             Inl e \<Rightarrow> (store, Failed e)
           | Inr _ \<Rightarrow>
               (let store' = env store;
                    new = cur\<lparr>status := requested, updatedAt := now\<rparr>
                in case conditional_write store' oid (status cur) new of
                     Some store'' \<Rightarrow> (store'', Written new)
                   | None \<Rightarrow> (store', PreconditionFailed))))"

definition transition ::
  "(order_store \<Rightarrow> order_store) \<Rightarrow> (order_store \<Rightarrow> order_store) \<Rightarrow> order_store \<Rightarrow> string
     \<Rightarrow> status \<Rightarrow> string \<Rightarrow> order_store \<times> (service_error + order)" where
  "transition env1 env2 store oid requested now =
     (case attempt env1 store oid requested now of
        (s, Failed e) \<Rightarrow> (s, Inl e)
      | (s, Written new) \<Rightarrow> (s, Inr new)
      | (s, PreconditionFailed) \<Rightarrow>
          (case attempt env2 s oid requested now of
             (s', Failed e) \<Rightarrow> (s', Inl e)
           | (s', Written new) \<Rightarrow> (s', Inr new)
           | (s', PreconditionFailed) \<Rightarrow> (s', Inl Conflict)))"

section \<open>Sample data\<close>

text \<open>Concrete values for the instances evaluated below.\<close>

definition sample_order :: "string \<Rightarrow> status \<Rightarrow> order" where
  "sample_order oid s =
     \<lparr>order_id = oid, tableNumber = 4,
      items = [\<lparr>line_menuItemId = ''m1'', line_name = ''Soup'', line_price = 5, line_quantity = 2,
                line_notes = None, line_modifiers = []\<rparr>],
      customerName = None, order_notes = None, total = 54 / 5, status = s,
      createdAt = ''2024-05-01T12:00:00Z'', updatedAt = ''2024-05-01T12:00:00Z''\<rparr>"

definition sample_settings :: "rat \<Rightarrow> rat \<Rightarrow> settings" where
  "sample_settings rate fee = \<lparr>currency = ''$'', taxRate = rate, serviceFee = fee\<rparr>"

definition sample_item :: "string \<Rightarrow> rat \<Rightarrow> menu_item" where
  "sample_item i p = \<lparr>item_id = i, item_name = i, item_price = p, item_imageUrl = None\<rparr>"

definition sample_modifier :: "string \<Rightarrow> string \<Rightarrow> rat \<Rightarrow> modifier" where
  "sample_modifier n l p = \<lparr>modifierName = n, label = l, mod_price = Some p\<rparr>"

definition sample_line :: "string \<Rightarrow> rat \<Rightarrow> int \<Rightarrow> modifier list \<Rightarrow> cart_line" where
  "sample_line i p q ms =
     \<lparr>menuItemId = i, name = i, price = p, basePrice = p - modifierPrice ms, quantity = q,
      cart_notes = [], modifiers = ms, imageUrl = None\<rparr>"

section \<open>The status buttons and the status graph\<close>

text \<open>
  C1. The transitions the dashboard's buttons can request, read as a relation on
  statuses, are exactly the forward edges pending -> accepted, accepted -> preparing,
  preparing -> ready, ready -> completed, plus an edge from every non-terminal status to
  cancelled, and nothing else; pending -> ready is not among them and completed has no
  outgoing edge. \<open>NEXT_STATUS\<close> holds exactly the four forward edges: one successor for
  each non-terminal status, none for completed or cancelled.
\<close>

theorem status_graph_edges:
  "((t \<in> set (card_buttons s)) =
      ((s, t) \<in> {(Pending, Accepted), (Accepted, Preparing), (Preparing, Ready),
                 (Ready, Completed), (Pending, Cancelled), (Accepted, Cancelled),
                 (Preparing, Cancelled), (Ready, Cancelled)})) \<and>
   ((NEXT_STATUS s = Some t) =
      ((s, t) \<in> {(Pending, Accepted), (Accepted, Preparing), (Preparing, Ready),
                 (Ready, Completed)})) \<and>
   Ready \<notin> set (card_buttons Pending) \<and>
   card_buttons Completed = [] \<and>
   NEXT_STATUS Completed = None \<and> NEXT_STATUS Cancelled = None"
  by (cases s; cases t; simp add: card_buttons_def)

text \<open>
  The validator of the order service accepts exactly the transitions the buttons offer.
\<close>

lemma validate_iff_card_buttons:
  "(validate s t = Inr ()) = (t \<in> set (card_buttons s))"
  by (cases s; cases t;
      simp add: validate_def forward_edge_def forward_chain_def terminal_def card_buttons_def)

text \<open>
  C2. Completed and cancelled are terminal for the dashboard: a card whose order is
  completed or cancelled renders neither an advance nor a cancel button, so it has no
  call of \<open>updateOrderStatus\<close>; a card with any other status offers the transition to
  cancelled; and every request the rendered dashboard can send names an order of the
  list whose status is neither completed nor cancelled.
\<close>

theorem terminal_orders_offer_no_transition:
  "(status ord = Completed \<or> status ord = Cancelled \<longrightarrow> card_actions ord = []) \<and>
   (\<not> (status ord = Completed \<or> status ord = Cancelled) \<longrightarrow>
      UpdateOrderStatus (order_id ord) Cancelled \<in> set (card_actions ord)) \<and>
   (\<forall>oid t. UpdateOrderStatus oid t \<in> set (dashboard_actions d) \<longrightarrow>
      (\<exists>x \<in> set (orders d).
         order_id x = oid \<and> status x \<noteq> Completed \<and> status x \<noteq> Cancelled))"
proof (intro conjI impI allI)
  assume "status ord = Completed \<or> status ord = Cancelled"
  then show "card_actions ord = []"
    by (auto simp: card_actions_def card_buttons_def)
next
  assume "\<not> (status ord = Completed \<or> status ord = Cancelled)"
  then show "UpdateOrderStatus (order_id ord) Cancelled \<in> set (card_actions ord)"
    by (auto simp: card_actions_def card_buttons_def)
next
  fix oid t
  assume "UpdateOrderStatus oid t \<in> set (dashboard_actions d)"
  then show "\<exists>x \<in> set (orders d).
      order_id x = oid \<and> status x \<noteq> Completed \<and> status x \<noteq> Cancelled"
    by (auto simp: dashboard_actions_def filteredOrders_def card_actions_def card_buttons_def
        split: if_splits)
qed

theorem terminal_orders_offer_no_transition_witness:
  "card_actions (sample_order ''a'' Completed) = [] \<and>
   card_actions (sample_order ''b'' Cancelled) = [] \<and>
   UpdateOrderStatus ''c'' Cancelled \<in> set (card_actions (sample_order ''c'' Preparing)) \<and>
   dashboard_actions
     (dashboard_mount\<lparr>orders := [sample_order ''a'' Completed, sample_order ''c'' Preparing],
        loading := False\<rparr>)
     = [UpdateOrderStatus ''c'' Ready, UpdateOrderStatus ''c'' Cancelled]"
  using terminal_orders_offer_no_transition
    [of "sample_order ''a'' Completed"
        "dashboard_mount\<lparr>orders := [sample_order ''a'' Completed, sample_order ''c'' Preparing],
           loading := False\<rparr>"]
    terminal_orders_offer_no_transition [of "sample_order ''c'' Preparing" dashboard_mount]
    terminal_orders_offer_no_transition [of "sample_order ''b'' Cancelled" dashboard_mount]
  by (simp add: sample_order_def dashboard_actions_def filteredOrders_def card_actions_def
      card_buttons_def dashboard_mount_def)

section \<open>Order service: a rejected transition writes nothing\<close>

text \<open>
  C3. For every order whose persisted status is pending, a transition request to ready
  fails with \<open>InvalidTransition\<close> and the store after the request is the store before
  it, whatever other writers would have done during an attempt.
\<close>

theorem pending_to_ready_rejected:
  "store oid = Some cur \<Longrightarrow> status cur = Pending \<Longrightarrow>
     transition env1 env2 store oid Ready now = (store, Inl InvalidTransition)"
  by (simp add: transition_def attempt_def validate_def forward_edge_def forward_chain_def
      terminal_def)

theorem pending_to_ready_rejected_witness:
  "[''o1'' \<mapsto> sample_order ''o1'' Pending] ''o1'' = Some (sample_order ''o1'' Pending) \<and>
   status (sample_order ''o1'' Pending) = Pending \<and>
   transition id id [''o1'' \<mapsto> sample_order ''o1'' Pending] ''o1'' Ready ''2024-05-01T12:05:00Z''
     = ([''o1'' \<mapsto> sample_order ''o1'' Pending], Inl InvalidTransition)"
  using pending_to_ready_rejected
    [of "[''o1'' \<mapsto> sample_order ''o1'' Pending]" "''o1''" "sample_order ''o1'' Pending" id id
        "''2024-05-01T12:05:00Z''"]
  by (simp add: sample_order_def)

text \<open>
  Under the same model a request for any transition out of completed or cancelled fails
  with \<open>InvalidTransition\<close> and writes nothing.
\<close>

lemma terminal_transition_rejected:
  "store oid = Some cur \<Longrightarrow> terminal (status cur) \<Longrightarrow>
     transition env1 env2 store oid requested now = (store, Inl InvalidTransition)"
  by (auto simp: transition_def attempt_def validate_def forward_edge_def forward_chain_def
      terminal_def)

section \<open>Event handlers\<close>

lemma order_updated_twice:
  "order_id u1 = order_id u2 \<Longrightarrow>
     order_updated_handler u2 (order_updated_handler u1 prev) = order_updated_handler u2 prev"
  by (induction prev) (simp_all add: order_updated_handler_def)

text \<open>
  C4, as stated, fails for \<open>new_order\<close>: handling the same \<open>new_order\<close> event twice leaves
  the order in the list twice, at the level of the handler and of the dashboard state;
  and a dashboard that missed the \<open>new_order\<close> of an order does not reach, with the next
  \<open>order_updated\<close> of that order, the state of a dashboard that saw both.
\<close>

theorem new_order_not_idempotent:
  "new_order_handler (sample_order ''a'' Pending) (new_order_handler (sample_order ''a'' Pending) [])
     \<noteq> new_order_handler (sample_order ''a'' Pending) [] \<and>
   dashboard_step (NewOrder 0 (sample_order ''a'' Pending))
      (dashboard_step (NewOrder 0 (sample_order ''a'' Pending)) dashboard_mount)
     \<noteq> dashboard_step (NewOrder 0 (sample_order ''a'' Pending)) dashboard_mount \<and>
   order_updated_handler (sample_order ''a'' Accepted) []
     \<noteq> order_updated_handler (sample_order ''a'' Accepted)
          (new_order_handler (sample_order ''a'' Pending) [])"
  by (simp add: new_order_handler_def order_updated_handler_def dashboard_mount_def is_open_def
      connectSSE_def sse_initial_def sample_order_def)

text \<open>
  C4, amended. The update events are idempotent and last-write-wins: handling the same
  \<open>order_updated\<close> (dashboard) or \<open>status_update\<close> (customer page) twice gives the state
  of handling it once, and handling a later update of the same order after an earlier
  one gives the state of handling the later one alone, so a missed update is made up by
  the next. The \<open>new_order\<close> handler prepends on every application.
\<close>

theorem update_events_idempotent:
  "order_updated_handler u (order_updated_handler u prev) = order_updated_handler u prev \<and>
   (order_id u1 = order_id u2 \<longrightarrow>
      order_updated_handler u2 (order_updated_handler u1 prev) = order_updated_handler u2 prev) \<and>
   dashboard_step (OrderUpdated k u) (dashboard_step (OrderUpdated k u) d)
     = dashboard_step (OrderUpdated k u) d \<and>
   status_update_handler dat (status_update_handler dat po) = status_update_handler dat po \<and>
   status_update_handler dat2 (status_update_handler dat1 po) = status_update_handler dat2 po \<and>
   page_step (StatusUpdate k dat) (page_step (StatusUpdate k dat) p)
     = page_step (StatusUpdate k dat) p \<and>
   new_order_handler n (new_order_handler n prev) = n # n # prev"
  by (simp add: order_updated_twice status_update_handler_def new_order_handler_def)

theorem update_events_idempotent_witness:
  "order_id (sample_order ''a'' Accepted) = order_id (sample_order ''a'' Preparing) \<and>
   order_updated_handler (sample_order ''a'' Preparing)
     (order_updated_handler (sample_order ''a'' Accepted)
        [sample_order ''b'' Pending, sample_order ''a'' Pending])
     = [sample_order ''b'' Pending, sample_order ''a'' Preparing] \<and>
   order_updated_handler (sample_order ''a'' Preparing)
        [sample_order ''b'' Pending, sample_order ''a'' Pending]
     = [sample_order ''b'' Pending, sample_order ''a'' Preparing]"
  using update_events_idempotent
    [of "sample_order ''a'' Preparing" "[sample_order ''b'' Pending, sample_order ''a'' Pending]"
        "sample_order ''a'' Accepted" "sample_order ''a'' Preparing"]
  by (simp add: order_updated_handler_def sample_order_def)

section \<open>Reconnection\<close>

text \<open>
  C5, as stated, fails on the dashboard: the fetch of current state is not made on
  mount only. After mount and the first response, a click on the refresh button calls
  \<open>fetchOrders\<close> again.
\<close>

theorem refresh_fetches_again:
  "fetches dashboard_mount = 1 \<and>
   fetches (dashboard_run [FetchResolved [] (sample_settings (8 / 100) 0), ClickRefresh]
              dashboard_mount) = 2"
  by (simp add: dashboard_mount_def fetchOrders_def)

text \<open>
  C5, amended. Reconnection performs no backfill: on both pages the stream-error
  handler and the reconnect timer start no fetch and leave the held order data as it
  was. A fetch is started once by the mount effects and, on the dashboard, by each
  click on the refresh button; no other event of either page starts one.
\<close>

theorem reconnect_does_not_fetch:
  "orders (dashboard_step (StreamError k) d) = orders d \<and>
   fetches (dashboard_step (StreamError k) d) = fetches d \<and>
   orders (dashboard_step TimerFired d) = orders d \<and>
   fetches (dashboard_step TimerFired d) = fetches d \<and>
   page_order (page_step (PageStreamError k) p) = page_order p \<and>
   page_fetches (page_step (PageStreamError k) p) = page_fetches p \<and>
   page_order (page_step PageTimerFired p) = page_order p \<and>
   page_fetches (page_step PageTimerFired p) = page_fetches p \<and>
   fetches (dashboard_step e d) =
     (if e = ClickRefresh \<and> \<not> loading d then Suc (fetches d) else fetches d) \<and>
   page_fetches (page_step e' p) = page_fetches p \<and>
   fetches dashboard_mount = 1 \<and> page_fetches (page_mount oid) = 1"
  by (cases e; cases e'; simp add: fetchOrders_def dashboard_mount_def page_mount_def)

text \<open>
  The error handler closes the connection held in \<^verbatim>\<open>eventSourceRef.current\<close> and sets one
  timer of 5000 ms; it keeps no count of earlier failures.
\<close>

lemma onerror_current:
  "eventSourceRef c = Some k \<Longrightarrow>
     onerror c = c\<lparr>sources := (sources c)[k := CLOSED], timers := timers c @ [5000]\<rparr>"
  by (simp add: onerror_def close_current_def)

lemma retry_cycle:
  "timer_fires (onerror \<lparr>sources = replicate n CLOSED @ [OPEN], eventSourceRef = Some n, timers = []\<rparr>)
     = \<lparr>sources = replicate (Suc n) CLOSED @ [OPEN], eventSourceRef = Some (Suc n), timers = []\<rparr>"
  by (simp add: onerror_def close_current_def timer_fires_def connectSSE_def list_update_append
      replicate_append_same)

text \<open>
  On the customer page every state reached from mount satisfies \<open>single_connection\<close>, so
  the connection that fails is the one the handler closes.
\<close>

lemma single_connection_mount: "single_connection (page_sse (page_mount oid))"
  by (auto simp: single_connection_def page_mount_def sse_initial_def connectSSE_def is_open_def
      nth_append split: if_splits)

lemma single_connection_onerror:
  assumes "single_connection c" "is_open k c"
  shows "single_connection (onerror c)" "timers (onerror c) = [5000]"
    "\<forall>j. \<not> is_open j (onerror c)" "sources (onerror c) = (sources c)[k := CLOSED]"
proof -
  from assms have cur: "eventSourceRef c = Some k" "timers c = []"
    by (auto simp: single_connection_def)
  show t: "timers (onerror c) = [5000]" "sources (onerror c) = (sources c)[k := CLOSED]"
    using cur by (simp_all add: onerror_current)
  show closed: "\<forall>j. \<not> is_open j (onerror c)"
  proof (intro allI notI)
    fix j assume j: "is_open j (onerror c)"
    then have "j \<noteq> k"
      using cur by (auto simp: onerror_current is_open_def)
    with j have "is_open j c"
      using cur by (auto simp: onerror_current is_open_def)
    with assms(1) cur \<open>j \<noteq> k\<close> show False
      by (auto simp: single_connection_def)
  qed
  show "single_connection (onerror c)"
    using closed t by (simp add: single_connection_def)
qed

lemma single_connection_timer_fires:
  assumes "single_connection c"
  shows "single_connection (timer_fires c)"
proof (cases "timers c")
  case Nil
  with assms show ?thesis by (simp add: timer_fires_def)
next
  case (Cons t ts)
  with assms have ts: "ts = []" and closed: "\<forall>k. \<not> is_open k c"
    by (auto simp: single_connection_def)
  have "\<And>k. is_open k (timer_fires c) \<Longrightarrow> k = length (sources c)"
    using closed Cons
    by (auto simp: timer_fires_def connectSSE_def is_open_def nth_append split: if_splits)
  then show ?thesis
    using Cons ts by (auto simp: single_connection_def timer_fires_def connectSSE_def)
qed

lemma single_connection_step:
  "single_connection (page_sse p) \<Longrightarrow> single_connection (page_sse (page_step e p))"
  by (cases e) (auto simp: single_connection_onerror(1) single_connection_timer_fires)

lemma single_connection_run:
  "single_connection (page_sse p) \<Longrightarrow> single_connection (page_sse (page_run es p))"
  by (induction es arbitrary: p) (simp_all add: single_connection_step)

lemma page_error_closes_failed_connection:
  "is_open k (page_sse (page_run es (page_mount oid))) \<Longrightarrow>
     page_sse (page_step (PageStreamError k) (page_run es (page_mount oid)))
       = (page_sse (page_run es (page_mount oid)))
           \<lparr>sources := (sources (page_sse (page_run es (page_mount oid))))[k := CLOSED],
            timers := [5000]\<rparr> \<and>
     (\<forall>j. \<not> is_open j (page_sse (page_step (PageStreamError k) (page_run es (page_mount oid)))))"
proof -
  assume k: "is_open k (page_sse (page_run es (page_mount oid)))"
  let ?c = "page_sse (page_run es (page_mount oid))"
  have inv: "single_connection ?c"
    by (simp add: single_connection_run single_connection_mount)
  from inv k have cur: "eventSourceRef ?c = Some k" "timers ?c = []"
    by (auto simp: single_connection_def)
  show ?thesis
    using k cur single_connection_onerror(3) [OF inv k] by (simp add: onerror_current)
qed

text \<open>
  After any number \<open>n\<close> of failures, each followed by its timer, the page holds a fresh
  open connection and no timer: the retries have no bound and the delay does not grow.
\<close>

lemma page_run_append: "page_run (es @ fs) p = page_run fs (page_run es p)"
  by (induction es arbitrary: p) simp_all

lemma page_retry_cycles:
  "oid \<noteq> [] \<Longrightarrow>
     page_sse (page_run (concat (map (\<lambda>i. [PageStreamError i, PageTimerFired]) [0..<n]))
                (page_mount oid))
       = \<lparr>sources = replicate n CLOSED @ [OPEN], eventSourceRef = Some n, timers = []\<rparr>"
proof (induction n)
  case 0
  then show ?case by (simp add: page_mount_def connectSSE_def sse_initial_def)
next
  case (Suc n)
  then show ?case
    by (simp add: page_run_append is_open_def nth_append retry_cycle)
qed

text \<open>
  On the dashboard the same invariant is kept by every event except a click on the
  sound button while a reconnect is pending.
\<close>

lemma single_connection_toggle:
  assumes "single_connection c" "timers c = []"
  shows "single_connection (connectSSE (close_current c))"
proof -
  have closed: "\<not> is_open j (close_current c)" for j
  proof
    assume j: "is_open j (close_current c)"
    then have "is_open j c"
      by (cases "eventSourceRef c"; cases "eventSourceRef c = Some j")
         (auto simp: close_current_def is_open_def)
    with assms(1) have "eventSourceRef c = Some j"
      by (simp add: single_connection_def)
    with j show False
      by (auto simp: close_current_def is_open_def)
  qed
  have "k = length (sources (close_current c))" if "is_open k (connectSSE (close_current c))" for k
    using that closed [of k]
    by (auto simp: connectSSE_def is_open_def nth_append split: if_splits)
  moreover have "timers (close_current c) = []" "length (sources (close_current c)) = length (sources c)"
    using assms(2) by (auto simp: close_current_def split: option.splits)
  ultimately show ?thesis
    by (auto simp: single_connection_def connectSSE_def)
qed

lemma single_connection_dashboard_step:
  assumes "single_connection (dash_sse d)"
    and "e = ClickSoundToggle \<Longrightarrow> timers (dash_sse d) = []"
  shows "single_connection (dash_sse (dashboard_step e d))"
  using assms
  by (cases e)
     (auto simp: single_connection_onerror(1) single_connection_timer_fires
        single_connection_toggle fetchOrders_def)

text \<open>
  C6 on the dashboard, at a run the code can receive: the stream fails (connection 0
  is closed, a reconnect is pending), the operator clicks the sound button within the
  five seconds (the effect's cleanup and \<open>connectSSE\<close> run: connection 1), the pending
  timer fires (\<open>connectSSE\<close> again: connection 2 replaces the ref, connection 1 stays
  open), and connection 1 fails. The handler closes connection 2, which had not
  failed; the failed connection 1 is left open.
\<close>

theorem stale_source_error_closes_other_connection:
  "dash_sse (dashboard_run
      [FetchResolved [] (sample_settings (8 / 100) 0), StreamError 0, ClickSoundToggle, TimerFired]
      dashboard_mount)
     = \<lparr>sources = [CLOSED, OPEN, OPEN], eventSourceRef = Some 2, timers = []\<rparr> \<and>
   dash_sse (dashboard_run
      [FetchResolved [] (sample_settings (8 / 100) 0), StreamError 0, ClickSoundToggle, TimerFired,
       StreamError 1]
      dashboard_mount)
     = \<lparr>sources = [CLOSED, OPEN, CLOSED], eventSourceRef = Some 2, timers = [5000]\<rparr>"
  by (simp add: dashboard_mount_def sse_initial_def connectSSE_def close_current_def onerror_def
      timer_fires_def is_open_def)

section \<open>Cart operations\<close>

lemma findIndex_Some:
  "findIndex P xs = Some i \<Longrightarrow> i < length xs \<and> P (xs ! i) \<and> (\<forall>j<i. \<not> P (xs ! j))"
proof (induction xs arbitrary: i)
  case Nil
  then show ?case by simp
next
  case (Cons x xs)
  show ?case
  proof (cases "P x")
    case True
    with Cons.prems show ?thesis by simp
  next
    case False
    with Cons.prems obtain i' where i': "findIndex P xs = Some i'" "i = Suc i'"
      by auto
    from Cons.IH [OF i'(1)] False i'(2) show ?thesis
      by (auto simp: nth_Cons split: nat.splits)
  qed
qed

lemma findIndex_None: "(findIndex P xs = None) = (\<forall>x \<in> set xs. \<not> P x)"
  by (induction xs) auto

lemma modifierPrice_foldl:
  "foldl (\<lambda>sum m. sum + (case mod_price m of None \<Rightarrow> 0 | Some p \<Rightarrow> p)) a ms
     = a + (\<Sum>m\<leftarrow>ms. case mod_price m of None \<Rightarrow> 0 | Some p \<Rightarrow> p)"
  by (induction ms arbitrary: a) (simp_all add: add.assoc)

lemma modifierPrice_sum:
  "modifierPrice ms = (\<Sum>m\<leftarrow>ms. case mod_price m of None \<Rightarrow> 0 | Some p \<Rightarrow> p)"
  by (simp add: modifierPrice_def modifierPrice_foldl)

lemma getTotal_foldl:
  "foldl (\<lambda>sum item. sum + price item * of_int (quantity item)) a cart
     = a + (\<Sum>item\<leftarrow>cart. price item * of_int (quantity item))"
  by (induction cart arbitrary: a) (simp_all add: add.assoc)

lemma getTotal_sum: "getTotal cart = (\<Sum>item\<leftarrow>cart. price item * of_int (quantity item))"
  by (simp add: getTotal_def getTotal_foldl)

text \<open>
  C9. When the cart has a line with the item's id, the same notes and a modifier list
  with the same JSON serialisation as the selected modifiers, \<open>addToCart\<close> adds the given
  quantity to the first such line and the cart keeps its length; otherwise it appends
  one line whose price is the item's price plus the sum of the selected modifiers'
  prices, behind the unchanged existing lines.
\<close>

theorem addToCart_merges_or_appends:
  "((\<exists>i<length prev. same_line item nts ms (prev ! i)) \<longrightarrow>
      (\<exists>i<length prev.
          same_line item nts ms (prev ! i) \<and> (\<forall>j<i. \<not> same_line item nts ms (prev ! j)) \<and>
          addToCart item qty nts ms prev
            = prev[i := (prev ! i)\<lparr>quantity := quantity (prev ! i) + qty\<rparr>]) \<and>
      length (addToCart item qty nts ms prev) = length prev) \<and>
   (\<not> (\<exists>i<length prev. same_line item nts ms (prev ! i)) \<longrightarrow>
      addToCart item qty nts ms prev
        = prev @ [\<lparr>menuItemId = item_id item, name = item_name item,
                    price = item_price item
                      + (\<Sum>m\<leftarrow>ms. case mod_price m of None \<Rightarrow> 0 | Some p \<Rightarrow> p),
                    basePrice = item_price item, quantity = qty, cart_notes = nts,
                    modifiers = ms, imageUrl = item_imageUrl item\<rparr>])"
proof (cases "findIndex (same_line item nts ms) prev")
  case None
  then have "\<not> (\<exists>i<length prev. same_line item nts ms (prev ! i))"
    by (auto simp: findIndex_None)
  with None show ?thesis
    by (simp add: addToCart_def modifierPrice_sum)
next
  case (Some i)
  from findIndex_Some [OF Some] have i: "i < length prev" "same_line item nts ms (prev ! i)"
    "\<forall>j<i. \<not> same_line item nts ms (prev ! j)"
    by auto
  have eq: "addToCart item qty nts ms prev
     = prev[i := (prev ! i)\<lparr>quantity := quantity (prev ! i) + qty\<rparr>]"
    using Some by (simp add: addToCart_def)
  have ex: "\<exists>i<length prev. same_line item nts ms (prev ! i)"
    using i by blast
  show ?thesis
    using i eq ex by auto
qed

theorem addToCart_merges_or_appends_witness:
  "(\<exists>i<length [sample_line ''m1'' 5 2 []].
       same_line (sample_item ''m1'' 5) [] [] ([sample_line ''m1'' 5 2 []] ! i)) \<and>
   addToCart (sample_item ''m1'' 5) 3 [] [] [sample_line ''m1'' 5 2 []]
     = [sample_line ''m1'' 5 5 []] \<and>
   \<not> (\<exists>i<length [sample_line ''m1'' 5 2 []].
         same_line (sample_item ''m2'' 2) [] [sample_modifier ''Extras'' ''Cheese'' 1]
           ([sample_line ''m1'' 5 2 []] ! i)) \<and>
   addToCart (sample_item ''m2'' 2) 1 [] [sample_modifier ''Extras'' ''Cheese'' 1]
       [sample_line ''m1'' 5 2 []]
     = [sample_line ''m1'' 5 2 [], sample_line ''m2'' 3 1 [sample_modifier ''Extras'' ''Cheese'' 1]]"
  using addToCart_merges_or_appends
      [of "[sample_line ''m1'' 5 2 []]" "sample_item ''m1'' 5" "[]" "[]" 3]
    addToCart_merges_or_appends
      [of "[sample_line ''m1'' 5 2 []]" "sample_item ''m2'' 2" "[]"
          "[sample_modifier ''Extras'' ''Cheese'' 1]" 1]
  by (simp add: same_line_def sample_line_def sample_item_def sample_modifier_def
      JSON_stringify_def modifier_json_def modifierPrice_def)

lemma removeFromCart_below:
  "index < n \<Longrightarrow> map snd (filter (\<lambda>(i, _). i \<noteq> index) (enumerate n xs)) = xs"
  by (induction xs arbitrary: n) auto

lemma removeFromCart_enumerate:
  "map snd (filter (\<lambda>(i, _). i \<noteq> n + k) (enumerate n xs)) = take k xs @ drop (Suc k) xs"
proof (induction xs arbitrary: n k)
  case Nil
  then show ?case by simp
next
  case (Cons x xs)
  show ?case
  proof (cases k)
    case 0
    then show ?thesis by (simp add: removeFromCart_below)
  next
    case (Suc k')
    with Cons.IH [of "Suc n" k'] show ?thesis by simp
  qed
qed

lemma removeFromCart_take_drop:
  "removeFromCart index prev = take index prev @ drop (Suc index) prev"
  using removeFromCart_enumerate [of 0 index prev] by (simp add: removeFromCart_def)

lemma set_removeFromCart: "set (removeFromCart index prev) \<subseteq> set prev"
  by (auto simp: removeFromCart_take_drop dest: in_set_takeD in_set_dropD)

lemma quantities_positive_update:
  "quantities_positive cart \<Longrightarrow> 1 \<le> quantity l \<Longrightarrow> quantities_positive (cart[i := l])"
  by (auto simp: quantities_positive_def list_all_iff dest!: set_update_subset_insert [THEN subsetD])

lemma quantities_positive_addToCart:
  assumes "quantities_positive cart" "1 \<le> qty"
  shows "quantities_positive (addToCart item qty nts ms cart)"
proof (cases "findIndex (same_line item nts ms) cart")
  case None
  with assms show ?thesis
    by (simp add: addToCart_def quantities_positive_def)
next
  case (Some i)
  from findIndex_Some [OF Some] have "i < length cart" by simp
  with assms(1) have "1 \<le> quantity (cart ! i)"
    by (simp add: quantities_positive_def list_all_length)
  with assms Some show ?thesis
    by (simp add: addToCart_def quantities_positive_update)
qed

lemma quantities_positive_step:
  assumes "quantities_positive cart" "add_quantity_positive c" "cart_step c cart = Inr cart'"
  shows "quantities_positive cart'"
proof (cases c)
  case (AddToCart item qty nts ms)
  with assms show ?thesis by (auto simp: quantities_positive_addToCart)
next
  case (UpdateQuantity index qty)
  with assms show ?thesis
    using set_removeFromCart [of index cart]
    by (auto simp: updateQuantity_def quantities_positive_update split: if_splits)
       (auto simp: quantities_positive_def list_all_iff)
next
  case (RemoveFromCart index)
  with assms show ?thesis
    using set_removeFromCart [of index cart]
    by (auto simp: quantities_positive_def list_all_iff)
next
  case ClearCart
  with assms show ?thesis by (auto simp: clearCart_def quantities_positive_def)
qed

lemma quantities_positive_run:
  "quantities_positive cart \<Longrightarrow> list_all add_quantity_positive cs \<Longrightarrow>
     quantities_positive (cart_run cs cart)"
proof (induction cs arbitrary: cart)
  case Nil
  then show ?case by simp
next
  case (Cons c cs)
  show ?case
  proof (cases "cart_step c cart")
    case (Inl e)
    with Cons.prems show ?thesis by simp
  next
    case (Inr cart')
    with Cons.prems have "quantities_positive cart'"
      by (auto intro: quantities_positive_step)
    with Cons.IH [of cart'] Cons.prems Inr show ?thesis by simp
  qed
qed

text \<open>
  C10. Starting from the empty cart, after every run of cart operations whose
  \<open>addToCart\<close> calls have a quantity of at least 1, every line of the cart has a quantity
  of at least 1; and \<open>updateQuantity\<close> with a quantity of 0 or less removes the line at
  the index (and stores nothing).
\<close>

theorem cart_quantities_positive:
  "(list_all add_quantity_positive cs \<longrightarrow> quantities_positive (cart_run cs [])) \<and>
   (qty \<le> 0 \<longrightarrow>
      updateQuantity index qty cart = Inr (take index cart @ drop (Suc index) cart))"
  using quantities_positive_run [of "[]" cs]
  by (simp add: quantities_positive_def updateQuantity_def removeFromCart_take_drop)

theorem cart_quantities_positive_witness:
  "list_all add_quantity_positive
     [AddToCart (sample_item ''m1'' 5) 2 [] [], AddToCart (sample_item ''m1'' 5) 1 [] [],
      AddToCart (sample_item ''m2'' 3) 1 [] [], UpdateQuantity 1 0, UpdateQuantity 0 7] \<and>
   cart_run
     [AddToCart (sample_item ''m1'' 5) 2 [] [], AddToCart (sample_item ''m1'' 5) 1 [] [],
      AddToCart (sample_item ''m2'' 3) 1 [] [], UpdateQuantity 1 0, UpdateQuantity 0 7] []
     = [sample_line ''m1'' 5 7 []] \<and>
   quantities_positive [sample_line ''m1'' 5 7 []] \<and>
   (0::int) \<le> 0 \<and>
   updateQuantity 1 0 [sample_line ''m1'' 5 3 [], sample_line ''m2'' 3 1 []]
     = Inr [sample_line ''m1'' 5 3 []]"
  using cart_quantities_positive
      [of "[AddToCart (sample_item ''m1'' 5) 2 [] [], AddToCart (sample_item ''m1'' 5) 1 [] [],
            AddToCart (sample_item ''m2'' 3) 1 [] [], UpdateQuantity 1 0, UpdateQuantity 0 7]"
          0 1 "[sample_line ''m1'' 5 3 [], sample_line ''m2'' 3 1 []]"]
  by (simp add: addToCart_def same_line_def sample_line_def sample_item_def
      JSON_stringify_def modifierPrice_def updateQuantity_def removeFromCart_def
      quantities_positive_def)

section \<open>Cart page totals\<close>

text \<open>
  With settings loaded and a tax rate other than 0, the cart page computes the subtotal
  as the sum of price times quantity over the lines, the tax as subtotal times the
  settings' tax rate, and the total as subtotal plus tax plus the settings' service fee.
\<close>

lemma cart_page_totals_nonzero_rate:
  "taxRate st \<noteq> 0 \<Longrightarrow>
     CartPage_subtotal cart = (\<Sum>item\<leftarrow>cart. price item * of_int (quantity item)) \<and>
     CartPage_tax (Some st) cart = CartPage_subtotal cart * taxRate st \<and>
     CartPage_total (Some st) cart
       = CartPage_subtotal cart + CartPage_tax (Some st) cart + serviceFee st"
  by (simp add: CartPage_subtotal_def CartPage_tax_def CartPage_total_def CartPage_taxRate_def
      CartPage_serviceFee_def js_or_def getTotal_sum)

text \<open>
  C7 at settings with tax rate 0 (a value the settings form stores) and one line of
  2 at 5.00: the cart page charges 8 percent, tax 0.80 and total 10.80, where subtotal
  times the settings' tax rate is 0.
\<close>

theorem cart_page_zero_tax_rate:
  "CartPage_subtotal [sample_line ''m1'' 5 2 []] = 10 \<and>
   CartPage_tax (Some (sample_settings 0 0)) [sample_line ''m1'' 5 2 []] = 8 / 10 \<and>
   CartPage_subtotal [sample_line ''m1'' 5 2 []] * taxRate (sample_settings 0 0) = 0 \<and>
   CartPage_total (Some (sample_settings 0 0)) [sample_line ''m1'' 5 2 []] = 108 / 10"
  by (simp add: CartPage_subtotal_def CartPage_tax_def CartPage_total_def CartPage_taxRate_def
      CartPage_serviceFee_def js_or_def getTotal_def sample_line_def sample_settings_def)

text \<open>
  C8. Two line items, 2 at unit price 5.00 and 1 at unit price 3.00 that carries one
  modifier of 1.00, with tax rate 0.08 and service fee 0: subtotal 13.00, tax 1.04, total
  14.04. The unit price of a line is its stored \<open>price\<close>, into which \<open>addToCart\<close> has
  folded the modifier: the second line comes from an item of base price 2.00 plus the
  modifier of 1.00.
\<close>

theorem two_line_scenario_totals:
  "addToCart (sample_item ''m2'' 2) 1 [] [sample_modifier ''Extras'' ''Cheese'' 1]
     (addToCart (sample_item ''m1'' 5) 2 [] [] [])
     = [sample_line ''m1'' 5 2 [], sample_line ''m2'' 3 1 [sample_modifier ''Extras'' ''Cheese'' 1]] \<and>
   CartPage_subtotal
     [sample_line ''m1'' 5 2 [], sample_line ''m2'' 3 1 [sample_modifier ''Extras'' ''Cheese'' 1]]
     = 13 \<and>
   CartPage_tax (Some (sample_settings (8 / 100) 0))
     [sample_line ''m1'' 5 2 [], sample_line ''m2'' 3 1 [sample_modifier ''Extras'' ''Cheese'' 1]]
     = 104 / 100 \<and>
   CartPage_total (Some (sample_settings (8 / 100) 0))
     [sample_line ''m1'' 5 2 [], sample_line ''m2'' 3 1 [sample_modifier ''Extras'' ''Cheese'' 1]]
     = 1404 / 100"
  by (simp add: addToCart_def same_line_def sample_line_def sample_item_def sample_modifier_def
      JSON_stringify_def modifier_json_def modifierPrice_def
      CartPage_subtotal_def CartPage_tax_def CartPage_total_def CartPage_taxRate_def
      CartPage_serviceFee_def js_or_def getTotal_def sample_settings_def)

text \<open>
  Were 3.00 the base price of the item, the stored unit price would be 4.00 and the
  totals 14.00, 1.12 and 15.12.
\<close>

lemma two_line_scenario_base_price_three:
  "addToCart (sample_item ''m2'' 3) 1 [] [sample_modifier ''Extras'' ''Cheese'' 1]
     (addToCart (sample_item ''m1'' 5) 2 [] [] [])
     = [sample_line ''m1'' 5 2 [], sample_line ''m2'' 4 1 [sample_modifier ''Extras'' ''Cheese'' 1]] \<and>
   CartPage_subtotal
     [sample_line ''m1'' 5 2 [], sample_line ''m2'' 4 1 [sample_modifier ''Extras'' ''Cheese'' 1]]
     = 14 \<and>
   CartPage_tax (Some (sample_settings (8 / 100) 0))
     [sample_line ''m1'' 5 2 [], sample_line ''m2'' 4 1 [sample_modifier ''Extras'' ''Cheese'' 1]]
     = 112 / 100 \<and>
   CartPage_total (Some (sample_settings (8 / 100) 0))
     [sample_line ''m1'' 5 2 [], sample_line ''m2'' 4 1 [sample_modifier ''Extras'' ''Cheese'' 1]]
     = 1512 / 100"
  by (simp add: addToCart_def same_line_def sample_line_def sample_item_def sample_modifier_def
      JSON_stringify_def modifier_json_def modifierPrice_def
      CartPage_subtotal_def CartPage_tax_def CartPage_total_def CartPage_taxRate_def
      CartPage_serviceFee_def js_or_def getTotal_def sample_settings_def)

end
